theory Spec2Isabelle
  imports Complex_Main
begin

section \<open>The steel production planning notebook\<close>

text \<open>
  The notebook \<^verbatim>\<open>Steel_Planning.ipynb\<close> declares a linear program with Pyomo, hands it to
  the GLPK solver and prints what comes back. The functions \<open>build_model\<close>, \<open>report\<close>
  and \<open>script\<close> follow the cell headed "Complete Script"; the notebook as a whole, run
  cell by cell in one kernel, is \<open>notebook\<close>. Python's floats are read as exact reals
  throughout, so nothing here speaks about rounding or about the solver's numerical
  tolerance.
\<close>

subsection \<open>Data\<close>

text \<open>
  \<^verbatim>\<open>pB = 25; pC = 30; rB = 200; rC = 140; dB = 6000; dC = 4000; T = 40\<close>

  The notebook says of these numbers that "this may change, but the model stay the
  same", so the model is built from a record of the seven parameters and
  \<open>steel_data\<close> holds the values the script assigns.
\<close>

record data =
  pB :: real
  pC :: real
  rB :: real
  rC :: real
  dB :: real
  dC :: real
  T :: real

definition steel_data :: data where
  "steel_data = \<lparr>pB = 25, pC = 30, rB = 200, rC = 140, dB = 6000, dC = 4000, T = 40\<rparr>"

subsection \<open>Pyomo components\<close>

text \<open>
  Exceptions the notebook can meet: \<open>1/rB\<close> on a zero rate, a solver that cannot be
  run (\<open>SolverFactory('glpk').solve\<close> raises \<open>ApplicationError\<close> when there is no
  \<open>glpsol\<close> executable), the evaluation of an objective whose variables hold no value,
  the access to a component the model does not have, the use of a name no cell has bound,
  and the assertion of the installation cell.
\<close>

datatype py_error =
    ZeroDivisionError | ApplicationError | ValueError | AttributeError
  | NameError | AssertionError

text \<open>Expressions over the model's variables, as the operators \<open>*\<close> and \<open>+\<close> build them.\<close>

datatype expr = Num real | Ref string | Mul expr expr | Add expr expr

text \<open>Pyomo's domains for a variable; the script uses \<open>NonNegativeReals\<close> only.\<close>

datatype domain = Reals | NonNegativeReals | Integers | Binary

datatype sense = minimize | maximize

datatype relation = Le | Eq | Ge

text \<open>\<^verbatim>\<open>Var(domain=..., bounds=(lb, ub))\<close>; a bound that is \<open>None\<close> in Python is absent.\<close>

record Var =
  domain :: domain
  bounds :: "real option \<times> real option"

text \<open>\<^verbatim>\<open>Objective(expr=..., sense=...)\<close>\<close>

record Objective =
  expr :: expr
  sense :: sense

text \<open>\<^verbatim>\<open>Constraint(expr = body <= rhs)\<close>\<close>

record Constraint =
  body :: expr
  rel :: relation
  rhs :: real

datatype component = V Var | Obj Objective | Con Constraint

text \<open>
  A \<open>ConcreteModel\<close> is a block of named components, kept in the order of their
  declaration. \<^verbatim>\<open>model.name = component\<close> appends one.
\<close>

record ConcreteModel =
  components :: "(string \<times> component) list"

definition new_model :: ConcreteModel where
  "new_model = \<lparr>components = []\<rparr>"

definition add_component :: "string \<Rightarrow> component \<Rightarrow> ConcreteModel \<Rightarrow> ConcreteModel" where
  "add_component name c m = m\<lparr>components := components m @ [(name, c)]\<rparr>"

fun variables :: "(string \<times> component) list \<Rightarrow> (string \<times> Var) list" where
  "variables [] = []"
| "variables ((n, V x) # cs) = (n, x) # variables cs"
| "variables (_ # cs) = variables cs"

fun objectives :: "(string \<times> component) list \<Rightarrow> Objective list" where
  "objectives [] = []"
| "objectives ((n, Obj ob) # cs) = ob # objectives cs"
| "objectives (_ # cs) = objectives cs"

fun constraints :: "(string \<times> component) list \<Rightarrow> Constraint list" where
  "constraints [] = []"
| "constraints ((n, Con c) # cs) = c # constraints cs"
| "constraints (_ # cs) = constraints cs"

subsection \<open>Model construction\<close>

text \<open>Python's true division: \<open>a / b\<close> raises on a zero divisor.\<close>

definition py_div :: "real \<Rightarrow> real \<Rightarrow> py_error + real" where
  "py_div a b = (if b = 0 then Inl ZeroDivisionError else Inr (a / b))"

text \<open>
  \<^verbatim>\<open>
  model = ConcreteModel()
  model.xB = Var(domain=NonNegativeReals, bounds=(0,dB))
  model.xC = Var(domain=NonNegativeReals, bounds=(0,dC))
  model.cost = Objective(expr = pB*model.xB + pC*model.xC, sense = maximize)
  model.cnstr1 = Constraint(expr = 1/rB*model.xB + 1/rC*model.xC <= T)
  \<close>
  In \<open>1/rB*model.xB\<close> the operators \<open>/\<close> and \<open>*\<close> associate to the left: the quotient
  \<open>1/rB\<close> is computed first (and raises when \<open>rB\<close> is zero), then multiplied with the
  variable.
\<close>

definition build_model :: "data \<Rightarrow> py_error + ConcreteModel" where
  "build_model d =
     (let m1 = add_component ''xB''
                 (V \<lparr>domain = NonNegativeReals, bounds = (Some 0, Some (dB d))\<rparr>) new_model;
          m2 = add_component ''xC''
                 (V \<lparr>domain = NonNegativeReals, bounds = (Some 0, Some (dC d))\<rparr>) m1;
          m3 = add_component ''cost''
                 (Obj \<lparr>expr = Add (Mul (Num (pB d)) (Ref ''xB'')) (Mul (Num (pC d)) (Ref ''xC'')),
                       sense = maximize\<rparr>) m2
      in case py_div 1 (rB d) of
           Inl e \<Rightarrow> Inl e
         | Inr a \<Rightarrow>
             (case py_div 1 (rC d) of
                Inl e \<Rightarrow> Inl e
              | Inr b \<Rightarrow>
                  Inr (add_component ''cnstr1''
                         (Con \<lparr>body = Add (Mul (Num a) (Ref ''xB'')) (Mul (Num b) (Ref ''xC'')),
                               rel = Le, rhs = T d\<rparr>) m3)))"

subsection \<open>What the model means\<close>

text \<open>A point assigns a real to every variable name.\<close>

type_synonym point = "string \<Rightarrow> real"

fun eval :: "point \<Rightarrow> expr \<Rightarrow> real" where
  "eval v (Num c) = c"
| "eval v (Ref n) = v n"
| "eval v (Mul a b) = eval v a * eval v b"
| "eval v (Add a b) = eval v a + eval v b"

text \<open>An expression is constant when it mentions no variable, linear when no product has
  a variable on both sides.\<close>

fun is_constant :: "expr \<Rightarrow> bool" where
  "is_constant (Num c) = True"
| "is_constant (Ref n) = False"
| "is_constant (Mul a b) = (is_constant a \<and> is_constant b)"
| "is_constant (Add a b) = (is_constant a \<and> is_constant b)"

fun is_linear :: "expr \<Rightarrow> bool" where
  "is_linear (Num c) = True"
| "is_linear (Ref n) = True"
| "is_linear (Mul a b) = ((is_constant a \<and> is_linear b) \<or> (is_linear a \<and> is_constant b))"
| "is_linear (Add a b) = (is_linear a \<and> is_linear b)"

definition above :: "real option \<Rightarrow> real \<Rightarrow> bool" where
  "above lb x = (case lb of None \<Rightarrow> True | Some l \<Rightarrow> l \<le> x)"

definition below :: "real option \<Rightarrow> real \<Rightarrow> bool" where
  "below ub x = (case ub of None \<Rightarrow> True | Some u \<Rightarrow> x \<le> u)"

definition in_domain :: "domain \<Rightarrow> real \<Rightarrow> bool" where
  "in_domain dm x = (case dm of
       Reals \<Rightarrow> True
     | NonNegativeReals \<Rightarrow> 0 \<le> x
     | Integers \<Rightarrow> x \<in> \<int>
     | Binary \<Rightarrow> x = 0 \<or> x = 1)"

text \<open>A variable is continuous when its domain is an interval of reals, bounded when both
  of its bounds are given.\<close>

fun is_continuous :: "domain \<Rightarrow> bool" where
  "is_continuous Reals = True"
| "is_continuous NonNegativeReals = True"
| "is_continuous Integers = False"
| "is_continuous Binary = False"

definition bounded_continuous :: "Var \<Rightarrow> bool" where
  "bounded_continuous x = (is_continuous (domain x) \<and> fst (bounds x) \<noteq> None \<and> snd (bounds x) \<noteq> None)"

definition var_ok :: "point \<Rightarrow> string \<times> Var \<Rightarrow> bool" where
  "var_ok v nx = (case nx of (n, x) \<Rightarrow>
     in_domain (domain x) (v n) \<and> above (fst (bounds x)) (v n) \<and> below (snd (bounds x)) (v n))"

definition holds :: "point \<Rightarrow> Constraint \<Rightarrow> bool" where
  "holds v c = (case rel c of
       Le \<Rightarrow> eval v (body c) \<le> rhs c
     | Eq \<Rightarrow> eval v (body c) = rhs c
     | Ge \<Rightarrow> eval v (body c) \<ge> rhs c)"

definition feasible :: "ConcreteModel \<Rightarrow> point \<Rightarrow> bool" where
  "feasible m v =
     (list_all (var_ok v) (variables (components m)) \<and>
      list_all (holds v) (constraints (components m)))"

text \<open>\<open>no_better ob w v\<close>: under the objective \<open>ob\<close> the point \<open>w\<close> does not beat \<open>v\<close>.\<close>

definition no_better :: "Objective \<Rightarrow> point \<Rightarrow> point \<Rightarrow> bool" where
  "no_better ob w v = (case sense ob of
       maximize \<Rightarrow> eval w (expr ob) \<le> eval v (expr ob)
     | minimize \<Rightarrow> eval v (expr ob) \<le> eval w (expr ob))"

text \<open>
  An optimal solution of a model with a single objective: a feasible point that no
  feasible point beats. This is the meaning of the declared model, the thing the solver
  is asked for; it is not computed by the notebook.
\<close>

definition is_optimal :: "ConcreteModel \<Rightarrow> point \<Rightarrow> bool" where
  "is_optimal m v =
     (case objectives (components m) of
        [ob] \<Rightarrow> feasible m v \<and> (\<forall>w. feasible m w \<longrightarrow> no_better ob w v)
      | _ \<Rightarrow> False)"

text \<open>The capacity constraint in the specification's form, \<open>xB/rB + xC/rC \<le> T\<close>.\<close>

definition capacity_spec :: "data \<Rightarrow> real \<Rightarrow> real \<Rightarrow> bool" where
  "capacity_spec d xb xc = (xb / rB d + xc / rC d \<le> T d)"

subsection \<open>The solver and what the script reads back\<close>

text \<open>
  \<^verbatim>\<open>sol = SolverFactory('glpk').solve(model, tee=True)\<close> returns Pyomo's results object
  and, as a side effect, loads the solution into the model's variables. The script looks
  only at \<open>sol['Solver']\<close>, a list of blocks that carry the solver's status and
  termination condition.
\<close>

datatype SolverStatus = ok | warning | error | aborted | unknown

datatype TerminationCondition = optimal | infeasible | unbounded | other

record SolverInformation =
  status :: SolverStatus
  termination_condition :: TerminationCondition

record SolverResults =
  Solver :: "SolverInformation list"

text \<open>
  The solver is not part of the repository. A call of it either raises or returns the
  results together with the point it loaded into the variables, if it loaded one.
\<close>

type_synonym solver_outcome = "py_error + SolverResults \<times> point option"

type_synonym solver = "ConcreteModel \<Rightarrow> solver_outcome"

text \<open>
  \<open>model.name()\<close>: a variable gives its current value (\<open>None\<close> while nothing is
  loaded), an objective or a constraint evaluates its expression and raises
  \<open>ValueError\<close> when the variables hold no value.
\<close>

definition call_component :: "ConcreteModel \<Rightarrow> string \<Rightarrow> point option \<Rightarrow> py_error + real option" where
  "call_component m name loaded =
     (case map_of (components m) name of
        None \<Rightarrow> Inl AttributeError
      | Some (V x) \<Rightarrow> Inr (map_option (\<lambda>v. v name) loaded)
      | Some (Obj ob) \<Rightarrow>
          (case loaded of None \<Rightarrow> Inl ValueError | Some v \<Rightarrow> Inr (Some (eval v (expr ob))))
      | Some (Con c) \<Rightarrow>
          (case loaded of None \<Rightarrow> Inl ValueError | Some v \<Rightarrow> Inr (Some (eval v (body c)))))"

subsection \<open>The script\<close>

text \<open>
  What a run does, in order: the call of the solver, each \<open>print\<close>, and each read of a
  component's value (the argument of a \<open>print\<close> is evaluated before the line is
  printed); and, for the notebook run cell by cell, each shell command of the
  installation cell, each assignment of a number to a name, the creation of the model
  object and each declaration of a component on it.
\<close>

datatype event =
    Invoke string
  | Print_info SolverInformation
  | Read string
  | Print_text string
  | Print_value string "real option"
  | Shell string
  | Assign string real
  | New_model
  | Declare string

text \<open>\<^verbatim>\<open>for info in sol['Solver']: print(info)\<close>\<close>

fun print_infos :: "SolverInformation list \<Rightarrow> event list" where
  "print_infos [] = []"
| "print_infos (info # infos) = Print_info info # print_infos infos"

text \<open>
  \<^verbatim>\<open>
  for info in sol['Solver']:
      print(info)
  print("Optimal solution value: z =", model.cost())
  print("Decision variables:")
  print("\tProduction of bands:", model.xB())
  print("\tProduction of coils:", model.xC())
  \<close>
  There is no test of the status between the loop and the reads. A read that raises
  ends the run with what was printed so far.
\<close>

definition report :: "ConcreteModel \<Rightarrow> SolverResults \<Rightarrow> point option \<Rightarrow> event list \<times> py_error option" where
  "report m sol loaded =
     (let t0 = print_infos (Solver sol) @ [Read ''cost''] in
      case call_component m ''cost'' loaded of
        Inl e \<Rightarrow> (t0, Some e)
      | Inr z \<Rightarrow>
          (let t1 = t0 @ [Print_value ''Optimal solution value: z ='' z,
                          Print_text ''Decision variables:'', Read ''xB''] in
           case call_component m ''xB'' loaded of
             Inl e \<Rightarrow> (t1, Some e)
           | Inr b \<Rightarrow>
               (let t2 = t1 @ [Print_value (CHR 0x09 # ''Production of bands:'') b, Read ''xC''] in
                case call_component m ''xC'' loaded of
                  Inl e \<Rightarrow> (t2, Some e)
                | Inr c \<Rightarrow>
                    (t2 @ [Print_value (CHR 0x09 # ''Production of coils:'') c], None))))"

text \<open>The complete script: build the model, call the solver once, report.\<close>

definition script :: "data \<Rightarrow> solver \<Rightarrow> event list \<times> py_error option" where
  "script d slv =
     (case build_model d of
        Inl e \<Rightarrow> ([], Some e)
      | Inr m \<Rightarrow>
          (case slv m of
             Inl e \<Rightarrow> ([Invoke ''glpk''], Some e)
           | Inr (sol, loaded) \<Rightarrow>
               (case report m sol loaded of (t, err) \<Rightarrow> (Invoke ''glpk'' # t, err))))"

subsection \<open>The solver's contract\<close>

text \<open>
  What the theorems about runs assume of the external LP solver, at the one model it is
  called on: it runs; when it loads a point, the point is an optimal solution of the model
  and every status block says \<open>ok\<close> and \<open>optimal\<close>; when it loads none, the model has
  no optimal solution and no status block says both \<open>ok\<close> and \<open>optimal\<close> (on an
  infeasible model GLPK's status stays \<open>ok\<close> and the termination condition is
  \<open>infeasible\<close>).
\<close>

definition lp_solver_contract :: "ConcreteModel \<Rightarrow> solver_outcome \<Rightarrow> bool" where
  "lp_solver_contract m r =
     (case r of
        Inl e \<Rightarrow> False
      | Inr (sol, None) \<Rightarrow>
          (\<forall>v. \<not> is_optimal m v) \<and>
          list_all (\<lambda>i. \<not> (status i = ok \<and> termination_condition i = optimal)) (Solver sol)
      | Inr (sol, Some v) \<Rightarrow>
          is_optimal m v \<and>
          list_all (\<lambda>i. status i = ok \<and> termination_condition i = optimal) (Solver sol))"

subsection \<open>Concrete points, solvers and trace predicates\<close>

text \<open>The point with \<open>xB = b\<close> and \<open>xC = c\<close>.\<close>

definition point2 :: "real \<Rightarrow> real \<Rightarrow> point" where
  "point2 b c = (\<lambda>n. if n = ''xB'' then b else if n = ''xC'' then c else 0)"

text \<open>A solver that reports success with one status block and loads the given point.\<close>

definition glpk_loads :: "point \<Rightarrow> solver" where
  "glpk_loads v = (\<lambda>m. Inr (\<lparr>Solver = [\<lparr>status = ok, termination_condition = optimal\<rparr>]\<rparr>, Some v))"

text \<open>
  A solver that finds the model infeasible: one status block, with status \<open>ok\<close> and
  termination condition \<open>infeasible\<close>, and nothing loaded.
\<close>

definition glpk_infeasible :: solver where
  "glpk_infeasible = (\<lambda>m. Inr (\<lparr>Solver = [\<lparr>status = ok, termination_condition = infeasible\<rparr>]\<rparr>, None))"

text \<open>The reads and lines of the report when every read returns a number.\<close>

definition solution_lines :: "real \<Rightarrow> real \<Rightarrow> real \<Rightarrow> event list" where
  "solution_lines z b c =
     [Read ''cost'',
      Print_value ''Optimal solution value: z ='' (Some z),
      Print_text ''Decision variables:'',
      Read ''xB'',
      Print_value (CHR 0x09 # ''Production of bands:'') (Some b),
      Read ''xC'',
      Print_value (CHR 0x09 # ''Production of coils:'') (Some c)]"

fun is_info :: "event \<Rightarrow> bool" where
  "is_info (Print_info i) = True"
| "is_info _ = False"






subsection \<open>The installation cell\<close>

text \<open>
  \<^verbatim>\<open>
  if not shutil.which("pyomo"):
      !pip install -q pyomo
      assert(shutil.which("pyomo"))
  if not (shutil.which("glpk") or os.path.isfile("glpk")):
      if "google.colab" in sys.modules:
          !apt-get install -y -qq glpk-utils
      else:
          try:
              !conda install -c conda-forge glpk
          except:
              pass
  \<close>
  The cell runs before the four steps of the script. Its result is the list of shell
  commands it ran and whether the assertion failed.
\<close>

record environment =
  which_pyomo :: bool
  which_pyomo_after_pip :: bool
  which_glpk :: bool
  isfile_glpk :: bool
  in_colab :: bool

definition install :: "environment \<Rightarrow> string list \<times> bool" where
  "install env =
     (let first = (if \<not> which_pyomo env then [''pip install -q pyomo''] else []);
          failed = (\<not> which_pyomo env \<and> \<not> which_pyomo_after_pip env)
      in if failed then (first, True)
         else if \<not> (which_glpk env \<or> isfile_glpk env)
              then (if in_colab env
                    then (first @ [''apt-get install -y -qq glpk-utils''], False)
                    else (first @ [''conda install -c conda-forge glpk''], False))
              else (first, False))"

subsection \<open>The notebook, cell by cell\<close>

text \<open>
  Run from top to bottom, the notebook executes the installation cell, then the cells of
  sections 3.2 to 3.4 (data, model object, variables, objective, constraint, solve, status
  loop, report), then the cell "Complete Script", which holds the same statements once
  more. All cells share the kernel's namespace. Of it the statements use the seven
  numbers, \<open>model\<close> and \<open>sol\<close>; the values the solver loads live in the model
  object, so a new model object has none.
\<close>

record kernel =
  k_nums :: "string \<rightharpoonup> real"
  k_model :: "ConcreteModel option"
  k_loaded :: "point option"
  k_sol :: "SolverResults option"


text \<open>
  A statement runs in a kernel and gives its events and either the exception it raised
  or the kernel it leaves.
\<close>

type_synonym stmt = "kernel \<Rightarrow> event list \<times> (py_error + kernel)"

definition and_then :: "'e + 'a \<Rightarrow> ('a \<Rightarrow> 'e + 'b) \<Rightarrow> 'e + 'b" where
  "and_then r f = (case r of Inl e \<Rightarrow> Inl e | Inr x \<Rightarrow> f x)"

text \<open>The value of a name; \<open>NameError\<close> when no statement has bound it.\<close>

definition number :: "kernel \<Rightarrow> string \<Rightarrow> py_error + real" where
  "number k n = (case k_nums k n of None \<Rightarrow> Inl NameError | Some x \<Rightarrow> Inr x)"

definition the_model :: "kernel \<Rightarrow> py_error + ConcreteModel" where
  "the_model k = (case k_model k of None \<Rightarrow> Inl NameError | Some m \<Rightarrow> Inr m)"

text \<open>\<open>model.name\<close> inside an expression: the component must exist.\<close>

definition attribute :: "ConcreteModel \<Rightarrow> string \<Rightarrow> py_error + unit" where
  "attribute m n = (case map_of (components m) n of None \<Rightarrow> Inl AttributeError | Some c \<Rightarrow> Inr ())"

text \<open>
  \<open>model.name = component\<close> on a model that may already hold the name: Pyomo replaces
  the old component (with a warning) and the new one comes last.
\<close>

definition set_component :: "string \<Rightarrow> component \<Rightarrow> ConcreteModel \<Rightarrow> ConcreteModel" where
  "set_component name c m =
     add_component name c (m\<lparr>components := filter (\<lambda>nc. fst nc \<noteq> name) (components m)\<rparr>)"

text \<open>\<^verbatim>\<open>pB = 25\<close>\<close>

definition assign :: "string \<Rightarrow> real \<Rightarrow> stmt" where
  "assign n x k = ([Assign n x], Inr (k\<lparr>k_nums := (k_nums k)(n \<mapsto> x)\<rparr>))"

text \<open>\<^verbatim>\<open>model = ConcreteModel()\<close>\<close>

definition create_model :: stmt where
  "create_model k = ([New_model], Inr (k\<lparr>k_model := Some new_model, k_loaded := None\<rparr>))"

definition declared :: "string \<Rightarrow> py_error + kernel \<Rightarrow> event list \<times> (py_error + kernel)" where
  "declared n r = (case r of Inl e \<Rightarrow> ([], Inl e) | Inr k \<Rightarrow> ([Declare n], Inr k))"

text \<open>\<^verbatim>\<open>model.xB = Var(domain=NonNegativeReals, bounds=(0,dB))\<close>, and the same for \<open>xC\<close>.\<close>

definition declare_var :: "string \<Rightarrow> string \<Rightarrow> stmt" where
  "declare_var n ub k =
     declared n
       (and_then (number k ub) (\<lambda>u.
        and_then (the_model k) (\<lambda>m.
        Inr (k\<lparr>k_model := Some (set_component n
               (V \<lparr>domain = NonNegativeReals, bounds = (Some 0, Some u)\<rparr>) m)\<rparr>))))"

text \<open>\<^verbatim>\<open>model.cost = Objective(expr = pB*model.xB + pC*model.xC, sense = maximize)\<close>\<close>

definition declare_cost :: stmt where
  "declare_cost k =
     declared ''cost''
       (and_then (number k ''pB'') (\<lambda>p.
        and_then (the_model k) (\<lambda>m.
        and_then (attribute m ''xB'') (\<lambda>_.
        and_then (number k ''pC'') (\<lambda>q.
        and_then (attribute m ''xC'') (\<lambda>_.
        Inr (k\<lparr>k_model := Some (set_component ''cost''
               (Obj \<lparr>expr = Add (Mul (Num p) (Ref ''xB'')) (Mul (Num q) (Ref ''xC'')),
                     sense = maximize\<rparr>) m)\<rparr>)))))))"

text \<open>\<^verbatim>\<open>model.cnstr1 = Constraint(expr = 1/rB*model.xB + 1/rC*model.xC <= T)\<close>\<close>

definition declare_cnstr1 :: stmt where
  "declare_cnstr1 k =
     declared ''cnstr1''
       (and_then (number k ''rB'') (\<lambda>r1.
        and_then (py_div 1 r1) (\<lambda>a.
        and_then (the_model k) (\<lambda>m.
        and_then (attribute m ''xB'') (\<lambda>_.
        and_then (number k ''rC'') (\<lambda>r2.
        and_then (py_div 1 r2) (\<lambda>b.
        and_then (attribute m ''xC'') (\<lambda>_.
        and_then (number k ''T'') (\<lambda>t.
        Inr (k\<lparr>k_model := Some (set_component ''cnstr1''
               (Con \<lparr>body = Add (Mul (Num a) (Ref ''xB'')) (Mul (Num b) (Ref ''xC'')),
                     rel = Le, rhs = t\<rparr>) m)\<rparr>))))))))))"

text \<open>\<^verbatim>\<open>sol = SolverFactory('glpk').solve(model, tee=True)\<close>\<close>

definition solve_stmt :: "solver \<Rightarrow> stmt" where
  "solve_stmt slv k =
     (case the_model k of
        Inl e \<Rightarrow> ([], Inl e)
      | Inr m \<Rightarrow>
          (case slv m of
             Inl e \<Rightarrow> ([Invoke ''glpk''], Inl e)
           | Inr (sol, loaded) \<Rightarrow>
               ([Invoke ''glpk''], Inr (k\<lparr>k_sol := Some sol, k_loaded := loaded\<rparr>))))"

text \<open>The status loop and the four \<open>print\<close> lines, as in \<open>report\<close>.\<close>

definition report_stmt :: stmt where
  "report_stmt k =
     (case k_sol k of
        None \<Rightarrow> ([], Inl NameError)
      | Some sol \<Rightarrow>
          (case k_model k of
             None \<Rightarrow> (print_infos (Solver sol), Inl NameError)
           | Some m \<Rightarrow>
               (case report m sol (k_loaded k) of
                  (t, None) \<Rightarrow> (t, Inr k)
                | (t, Some e) \<Rightarrow> (t, Inl e))))"

text \<open>Statements run in order; the first exception ends the run.\<close>

fun run :: "stmt list \<Rightarrow> kernel \<Rightarrow> event list \<times> (py_error + kernel)" where
  "run [] k = ([], Inr k)"
| "run (s # ss) k =
     (case s k of
        (t, Inl e) \<Rightarrow> (t, Inl e)
      | (t, Inr k') \<Rightarrow> (case run ss k' of (t', r) \<Rightarrow> (t @ t', r)))"

definition data_cell :: "stmt list" where
  "data_cell =
     [assign ''pB'' 25, assign ''pC'' 30, assign ''rB'' 200, assign ''rC'' 140,
      assign ''dB'' 6000, assign ''dC'' 4000, assign ''T'' 40]"

definition declaration_cells :: "stmt list" where
  "declaration_cells =
     [declare_var ''xB'' ''dB'', declare_var ''xC'' ''dC'', declare_cost, declare_cnstr1]"


text \<open>The cell "Complete Script": the model object comes first, then the data.\<close>

definition complete_script_cell :: "solver \<Rightarrow> stmt list" where
  "complete_script_cell slv =
     [create_model] @ data_cell @ declaration_cells @ [solve_stmt slv, report_stmt]"


text \<open>
  A local environment with Pyomo installed. GLPK's executable is called \<open>glpsol\<close>, so
  \<open>shutil.which("glpk")\<close> finds nothing even where GLPK is installed, and there is no
  file \<open>glpk\<close> in the working directory.
\<close>

definition env_local :: environment where
  "env_local = \<lparr>which_pyomo = True, which_pyomo_after_pip = True, which_glpk = False,
                 isfile_glpk = False, in_colab = False\<rparr>"

section \<open>Facts about the built model\<close>

lemma build_steel_ok: "\<exists>m. build_model steel_data = Inr m"
  by (simp add: build_model_def steel_data_def py_div_def)

lemma build_model_components:
  assumes "build_model d = Inr m"
  shows "rB d \<noteq> 0" and "rC d \<noteq> 0"
    and "components m =
      [(''xB'', V \<lparr>domain = NonNegativeReals, bounds = (Some 0, Some (dB d))\<rparr>),
       (''xC'', V \<lparr>domain = NonNegativeReals, bounds = (Some 0, Some (dC d))\<rparr>),
       (''cost'', Obj \<lparr>expr = Add (Mul (Num (pB d)) (Ref ''xB'')) (Mul (Num (pC d)) (Ref ''xC'')),
                       sense = maximize\<rparr>),
       (''cnstr1'', Con \<lparr>body = Add (Mul (Num (1 / rB d)) (Ref ''xB'')) (Mul (Num (1 / rC d)) (Ref ''xC'')),
                         rel = Le, rhs = T d\<rparr>)]"
  using assms
  by (auto simp: build_model_def py_div_def new_model_def add_component_def Let_def
           split: if_splits)

lemma feasible_build:
  assumes "build_model d = Inr m"
  shows "feasible m v \<longleftrightarrow>
           0 \<le> v ''xB'' \<and> v ''xB'' \<le> dB d \<and> 0 \<le> v ''xC'' \<and> v ''xC'' \<le> dC d \<and>
           1 / rB d * v ''xB'' + 1 / rC d * v ''xC'' \<le> T d"
  by (auto simp: feasible_def build_model_components(3)[OF assms] var_ok_def in_domain_def
        above_def below_def holds_def)

lemma optimal_build:
  assumes "build_model d = Inr m"
  shows "is_optimal m v \<longleftrightarrow>
           feasible m v \<and>
           (\<forall>w. feasible m w \<longrightarrow>
                 pB d * w ''xB'' + pC d * w ''xC'' \<le> pB d * v ''xB'' + pC d * v ''xC'')"
  by (simp add: is_optimal_def build_model_components(3)[OF assms] no_better_def)

lemma read_build:
  assumes "build_model d = Inr m"
  shows "call_component m ''cost'' (Some v) = Inr (Some (pB d * v ''xB'' + pC d * v ''xC''))"
    and "call_component m ''xB'' (Some v) = Inr (Some (v ''xB''))"
    and "call_component m ''xC'' (Some v) = Inr (Some (v ''xC''))"
    and "call_component m ''cost'' None = Inl ValueError"
  by (simp_all add: call_component_def build_model_components(3)[OF assms])

lemma print_infos_map: "print_infos is = map Print_info is"
  by (induction "is") simp_all

lemma steel_feasible:
  assumes "build_model steel_data = Inr m"
  shows "feasible m v \<longleftrightarrow>
           0 \<le> v ''xB'' \<and> v ''xB'' \<le> 6000 \<and> 0 \<le> v ''xC'' \<and> v ''xC'' \<le> 4000 \<and>
           7 * v ''xB'' + 10 * v ''xC'' \<le> 56000"
  by (simp add: feasible_build[OF assms]) (auto simp: steel_data_def)

lemma steel_optimal_iff:
  assumes "build_model steel_data = Inr m"
  shows "is_optimal m v \<longleftrightarrow> v ''xB'' = 6000 \<and> v ''xC'' = 1400"
proof
  assume opt: "is_optimal m v"
  have f0: "feasible m (point2 6000 1400)"
    by (simp add: steel_feasible[OF assms] point2_def)
  from opt have fv: "feasible m v"
    and best: "25 * point2 6000 1400 ''xB'' + 30 * point2 6000 1400 ''xC'' \<le> 25 * v ''xB'' + 30 * v ''xC''"
    using f0 by (auto simp: optimal_build[OF assms] steel_data_def)
  from best have "192000 \<le> 25 * v ''xB'' + 30 * v ''xC''"
    by (simp add: point2_def)
  with fv show "v ''xB'' = 6000 \<and> v ''xC'' = 1400"
    by (simp add: steel_feasible[OF assms])
next
  assume at: "v ''xB'' = 6000 \<and> v ''xC'' = 1400"
  have "feasible m v" using at by (simp add: steel_feasible[OF assms])
  moreover have "25 * w ''xB'' + 30 * w ''xC'' \<le> 25 * v ''xB'' + 30 * v ''xC''"
    if "feasible m w" for w
    using that at by (simp add: steel_feasible[OF assms])
  ultimately show "is_optimal m v"
    by (simp add: optimal_build[OF assms] steel_data_def)
qed

lemma steel_point_optimal:
  assumes "build_model steel_data = Inr m"
  shows "is_optimal m (point2 6000 1400)"
  by (simp add: steel_optimal_iff[OF assms] point2_def)

lemma script_loaded:
  assumes "build_model d = Inr m" and "slv m = Inr (sol, Some v)"
  shows "script d slv =
           (Invoke ''glpk'' # print_infos (Solver sol) @
              solution_lines (pB d * v ''xB'' + pC d * v ''xC'') (v ''xB'') (v ''xC''),
            None)"
  by (simp add: script_def report_def assms read_build[OF assms(1)] solution_lines_def)

lemma script_not_loaded:
  assumes "build_model d = Inr m" and "slv m = Inr (sol, None)"
  shows "script d slv = (Invoke ''glpk'' # print_infos (Solver sol) @ [Read ''cost''], Some ValueError)"
  by (simp add: script_def report_def assms read_build[OF assms(1)])

section \<open>The optimum of the given data\<close>

text \<open>
  C1. With the data of the script the linear program has an optimal solution, every
  optimal solution has \<open>xB = 6000\<close> and \<open>xC = 1400\<close>, its objective value as
  \<open>model.cost()\<close> computes it is \<open>192000\<close>, and whenever the solver meets its contract the
  run prints the status blocks and then exactly these three values.
\<close>

theorem steel_run_reports_optimum:
  assumes "build_model steel_data = Inr m"
  shows "(\<exists>v. is_optimal m v) \<and>
         (\<forall>v. is_optimal m v \<longrightarrow>
              v ''xB'' = 6000 \<and> v ''xC'' = 1400 \<and>
              call_component m ''cost'' (Some v) = Inr (Some 192000)) \<and>
         (\<forall>slv. lp_solver_contract m (slv m) \<longrightarrow>
              (\<exists>sol::SolverResults. script steel_data slv =
                 (Invoke ''glpk'' # print_infos (Solver sol) @ solution_lines 192000 6000 1400,
                  None)))"
proof (intro conjI allI impI)
  show "\<exists>v. is_optimal m v"
    using steel_point_optimal[OF assms] by blast
next
  fix v assume opt: "is_optimal m v"
  then have at: "v ''xB'' = 6000" "v ''xC'' = 1400"
    by (simp_all add: steel_optimal_iff[OF assms])
  show "v ''xB'' = 6000" by (rule at)
  show "v ''xC'' = 1400" by (rule at)
  show "call_component m ''cost'' (Some v) = Inr (Some 192000)"
    by (simp add: read_build(1)[OF assms] at steel_data_def)
next
  fix slv assume c: "lp_solver_contract m (slv m)"
  have ex: "\<exists>v. is_optimal m v"
    using steel_point_optimal[OF assms] by blast
  from c ex obtain sol v where r: "slv m = Inr (sol, Some v)" and opt: "is_optimal m v"
    by (auto simp: lp_solver_contract_def split: sum.splits option.splits)
  from opt have at: "v ''xB'' = 6000" "v ''xC'' = 1400"
    by (simp_all add: steel_optimal_iff[OF assms])
  have "script steel_data slv =
          (Invoke ''glpk'' # print_infos (Solver sol) @ solution_lines 192000 6000 1400, None)"
    by (simp add: script_loaded[of steel_data m slv sol v, OF assms r] at) (simp add: steel_data_def)
  then show "\<exists>sol::SolverResults. script steel_data slv =
          (Invoke ''glpk'' # print_infos (Solver sol) @ solution_lines 192000 6000 1400, None)" ..
qed

theorem steel_run_reports_optimum_witness:
  "script steel_data (glpk_loads (point2 6000 1400)) =
     (Invoke ''glpk'' # Print_info \<lparr>status = ok, termination_condition = optimal\<rparr> #
      solution_lines 192000 6000 1400, None)"
proof -
  obtain m where b: "build_model steel_data = Inr m"
    using build_steel_ok by blast
  have c: "lp_solver_contract m (glpk_loads (point2 6000 1400) m)"
    by (simp add: lp_solver_contract_def glpk_loads_def steel_point_optimal[OF b])
  note run = steel_run_reports_optimum[OF b, THEN conjunct2, THEN conjunct2, rule_format,
                 where slv = "glpk_loads (point2 6000 1400)", OF c]
  then obtain sol :: SolverResults where s: "script steel_data (glpk_loads (point2 6000 1400)) =
      (Invoke ''glpk'' # print_infos (Solver sol) @ solution_lines 192000 6000 1400, None)" ..
  have "script steel_data (glpk_loads (point2 6000 1400)) =
          (Invoke ''glpk'' #
           print_infos (Solver \<lparr>Solver = [\<lparr>status = ok, termination_condition = optimal\<rparr>]\<rparr>) @
           solution_lines (pB steel_data * point2 6000 1400 ''xB'' + pC steel_data * point2 6000 1400 ''xC'')
             (point2 6000 1400 ''xB'') (point2 6000 1400 ''xC''), None)"
    by (rule script_loaded[of steel_data m "glpk_loads (point2 6000 1400)", OF b])
       (simp add: glpk_loads_def)
  with s show ?thesis
    by (simp add: point2_def steel_data_def)
qed

lemma build_ok_T: "\<exists>m. build_model (steel_data\<lparr>T := t\<rparr>) = Inr m"
  by (simp add: build_model_def steel_data_def py_div_def)

lemma no_info_in_solution_lines: "\<not> list_ex is_info (solution_lines z b c)"
  by (simp add: solution_lines_def)

lemma infeasible_when_T_negative:
  assumes "build_model (steel_data\<lparr>T := -1\<rparr>) = Inr m"
  shows "\<not> is_optimal m v"
proof
  assume "is_optimal m v"
  then have "feasible m v" by (simp add: optimal_build[OF assms])
  then have "0 \<le> v ''xB''" and "0 \<le> v ''xC''" and "v ''xB'' / 200 + v ''xC'' / 140 \<le> -1"
    by (simp_all add: feasible_build[OF assms] steel_data_def)
  then show False by (simp add: field_simps)
qed

lemma infeasible_outcome_meets_contract:
  assumes "build_model (steel_data\<lparr>T := -1\<rparr>) = Inr m"
  shows "lp_solver_contract m (glpk_infeasible m)"
  by (simp add: lp_solver_contract_def glpk_infeasible_def infeasible_when_T_negative[OF assms])

section \<open>Status and solution values\<close>




lemma print_infos_no_value: "Print_value l x \<notin> set (print_infos is)"
  by (induction "is") simp_all

lemma reported_is_optimal:
  assumes b: "build_model d = Inr m"
    and c: "lp_solver_contract m (slv m)"
    and s: "script d slv = (t, err)"
    and pb: "Print_value (CHR 0x09 # ''Production of bands:'') (Some xb) \<in> set t"
    and pc: "Print_value (CHR 0x09 # ''Production of coils:'') (Some xc) \<in> set t"
  shows "\<exists>v. is_optimal m v \<and> v ''xB'' = xb \<and> v ''xC'' = xc"
proof -
  from c obtain sol loaded where r: "slv m = Inr (sol, loaded)"
    by (auto simp: lp_solver_contract_def split: sum.splits)
  show ?thesis
  proof (cases loaded)
    case None
    have "script d slv = (Invoke ''glpk'' # print_infos (Solver sol) @ [Read ''cost''], Some ValueError)"
      using script_not_loaded[of d m slv sol, OF b] r None by simp
    with s have "t = Invoke ''glpk'' # print_infos (Solver sol) @ [Read ''cost'']"
      by simp
    with pb show ?thesis
      by (simp add: print_infos_no_value)
  next
    case (Some v)
    with c r have opt: "is_optimal m v"
      by (simp add: lp_solver_contract_def)
    have "script d slv =
           (Invoke ''glpk'' # print_infos (Solver sol) @
              solution_lines (pB d * v ''xB'' + pC d * v ''xC'') (v ''xB'') (v ''xC''), None)"
      using script_loaded[of d m slv sol v, OF b] r Some by simp
    with s have t: "t = Invoke ''glpk'' # print_infos (Solver sol) @
              solution_lines (pB d * v ''xB'' + pC d * v ''xC'') (v ''xB'') (v ''xC'')"
      by simp
    from pb have "v ''xB'' = xb"
      by (simp add: t print_infos_no_value solution_lines_def)
    moreover from pc have "v ''xC'' = xc"
      by (simp add: t print_infos_no_value solution_lines_def)
    ultimately show ?thesis using opt by blast
  qed
qed

text \<open>
  C3. When the solver meets its contract, the production of bands and of coils that a
  run prints satisfy the capacity constraint in the specification's form,
  \<open>xB/rB + xC/rC \<le> T\<close>, for every choice of the data.
\<close>

theorem reported_solution_within_capacity:
  assumes "build_model d = Inr m"
    and "lp_solver_contract m (slv m)"
    and "script d slv = (t, err)"
    and "Print_value (CHR 0x09 # ''Production of bands:'') (Some xb) \<in> set t"
    and "Print_value (CHR 0x09 # ''Production of coils:'') (Some xc) \<in> set t"
  shows "capacity_spec d xb xc"
proof -
  from reported_is_optimal[OF assms] obtain v
    where "is_optimal m v" and at: "v ''xB'' = xb" "v ''xC'' = xc"
    by blast
  then have "feasible m v"
    by (simp add: optimal_build[OF assms(1)])
  then have "1 / rB d * xb + 1 / rC d * xc \<le> T d"
    by (simp add: feasible_build[OF assms(1)] at)
  then show ?thesis
    by (simp add: capacity_spec_def)
qed

lemma steel_run:
  "script steel_data (glpk_loads (point2 6000 1400)) =
     (Invoke ''glpk'' # Print_info \<lparr>status = ok, termination_condition = optimal\<rparr> #
      solution_lines 192000 6000 1400, None)"
proof -
  obtain m where b: "build_model steel_data = Inr m"
    using build_steel_ok by blast
  have "script steel_data (glpk_loads (point2 6000 1400)) =
          (Invoke ''glpk'' #
           print_infos (Solver \<lparr>Solver = [\<lparr>status = ok, termination_condition = optimal\<rparr>]\<rparr>) @
           solution_lines (pB steel_data * point2 6000 1400 ''xB'' + pC steel_data * point2 6000 1400 ''xC'')
             (point2 6000 1400 ''xB'') (point2 6000 1400 ''xC''), None)"
    by (rule script_loaded[of steel_data m "glpk_loads (point2 6000 1400)", OF b])
       (simp add: glpk_loads_def)
  then show ?thesis
    by (simp add: point2_def steel_data_def)
qed

lemma steel_contract:
  assumes "build_model steel_data = Inr m"
  shows "lp_solver_contract m (glpk_loads (point2 6000 1400) m)"
  by (simp add: lp_solver_contract_def glpk_loads_def steel_point_optimal[OF assms])

theorem reported_solution_within_capacity_witness:
  "capacity_spec steel_data 6000 1400 \<and> (6000::real) / 200 + 1400 / 140 \<le> 40"
proof -
  obtain m where b: "build_model steel_data = Inr m"
    using build_steel_ok by blast
  have "capacity_spec steel_data 6000 1400"
    by (rule reported_solution_within_capacity[OF b steel_contract[OF b] steel_run])
       (simp_all add: solution_lines_def)
  then show ?thesis
    by (simp add: capacity_spec_def steel_data_def)
qed

text \<open>
  C4. When the solver meets its contract, the two printed productions lie within the
  declared bounds: \<open>0 \<le> xB \<le> dB\<close> and \<open>0 \<le> xC \<le> dC\<close>.
\<close>

theorem reported_solution_within_bounds:
  assumes "build_model d = Inr m"
    and "lp_solver_contract m (slv m)"
    and "script d slv = (t, err)"
    and "Print_value (CHR 0x09 # ''Production of bands:'') (Some xb) \<in> set t"
    and "Print_value (CHR 0x09 # ''Production of coils:'') (Some xc) \<in> set t"
  shows "0 \<le> xb \<and> xb \<le> dB d \<and> 0 \<le> xc \<and> xc \<le> dC d"
proof -
  from reported_is_optimal[OF assms] obtain v
    where "is_optimal m v" and at: "v ''xB'' = xb" "v ''xC'' = xc"
    by blast
  then have "feasible m v"
    by (simp add: optimal_build[OF assms(1)])
  then show ?thesis
    by (simp add: feasible_build[OF assms(1)] at)
qed

theorem reported_solution_within_bounds_witness:
  "(0::real) \<le> 6000 \<and> 6000 \<le> dB steel_data \<and> (0::real) \<le> 1400 \<and> 1400 \<le> dC steel_data"
proof -
  obtain m where b: "build_model steel_data = Inr m"
    using build_steel_ok by blast
  show ?thesis
    by (rule reported_solution_within_bounds[OF b steel_contract[OF b] steel_run])
       (simp_all add: solution_lines_def)
qed

section \<open>Changing the data\<close>

lemma feasible_mono_T:
  assumes b1: "build_model d = Inr m1" and b2: "build_model (d\<lparr>T := T2\<rparr>) = Inr m2"
    and le: "T d \<le> T2" and f: "feasible m1 v"
  shows "feasible m2 v"
  using f le by (simp add: feasible_build[OF b1] feasible_build[OF b2])

text \<open>
  C5. Raising the capacity \<open>T\<close> and keeping the other six parameters never lowers
  the optimal objective value: if \<open>T1 \<le> T2\<close> and both models have optimal solutions,
  the value \<open>model.cost()\<close> at an optimum of the second is at least that at an optimum
  of the first.
\<close>

theorem optimum_monotone_in_T:
  assumes "build_model d = Inr m1" and "build_model (d\<lparr>T := T2\<rparr>) = Inr m2"
    and "T d \<le> T2"
    and "is_optimal m1 v1" and "is_optimal m2 v2"
    and "call_component m1 ''cost'' (Some v1) = Inr (Some z1)"
    and "call_component m2 ''cost'' (Some v2) = Inr (Some z2)"
  shows "z1 \<le> z2"
proof -
  from assms(4) have "feasible m1 v1"
    by (simp add: optimal_build[OF assms(1)])
  then have "feasible m2 v1"
    by (rule feasible_mono_T[OF assms(1,2,3)])
  with assms(5) have "pB d * v1 ''xB'' + pC d * v1 ''xC'' \<le> pB d * v2 ''xB'' + pC d * v2 ''xC''"
    by (simp add: optimal_build[OF assms(2)])
  moreover from assms(6) have "z1 = pB d * v1 ''xB'' + pC d * v1 ''xC''"
    by (simp add: read_build(1)[OF assms(1)])
  moreover from assms(7) have "z2 = pB d * v2 ''xB'' + pC d * v2 ''xC''"
    by (simp add: read_build(1)[OF assms(2)])
  ultimately show ?thesis by simp
qed

lemma steel_T50_optimal:
  assumes "build_model (steel_data\<lparr>T := 50\<rparr>) = Inr m"
  shows "is_optimal m (point2 6000 2800)"
proof -
  have f: "feasible m w \<longleftrightarrow>
           0 \<le> w ''xB'' \<and> w ''xB'' \<le> 6000 \<and> 0 \<le> w ''xC'' \<and> w ''xC'' \<le> 4000 \<and>
           7 * w ''xB'' + 10 * w ''xC'' \<le> 70000" for w
    by (simp add: feasible_build[OF assms]) (auto simp: steel_data_def)
  have "feasible m (point2 6000 2800)"
    by (simp add: f point2_def)
  moreover have "25 * w ''xB'' + 30 * w ''xC'' \<le> 25 * point2 6000 2800 ''xB'' + 30 * point2 6000 2800 ''xC''"
    if "feasible m w" for w
    using that by (simp add: f point2_def)
  ultimately show ?thesis
    by (simp add: optimal_build[OF assms] steel_data_def)
qed

theorem optimum_monotone_in_T_witness:
  "\<exists>m1 m2. build_model steel_data = Inr m1 \<and> build_model (steel_data\<lparr>T := 50\<rparr>) = Inr m2 \<and>
     T steel_data \<le> 50 \<and> is_optimal m1 (point2 6000 1400) \<and> is_optimal m2 (point2 6000 2800) \<and>
     call_component m1 ''cost'' (Some (point2 6000 1400)) = Inr (Some 192000) \<and>
     call_component m2 ''cost'' (Some (point2 6000 2800)) = Inr (Some 234000) \<and>
     (192000::real) \<le> 234000"
proof -
  obtain m1 where b1: "build_model steel_data = Inr m1"
    using build_steel_ok by blast
  obtain m2 where b2: "build_model (steel_data\<lparr>T := 50\<rparr>) = Inr m2"
    using build_ok_T by blast
  have le: "T steel_data \<le> 50" by (simp add: steel_data_def)
  have o1: "is_optimal m1 (point2 6000 1400)" by (rule steel_point_optimal[OF b1])
  have o2: "is_optimal m2 (point2 6000 2800)" by (rule steel_T50_optimal[OF b2])
  have c1: "call_component m1 ''cost'' (Some (point2 6000 1400)) = Inr (Some 192000)"
    by (simp add: read_build(1)[OF b1] point2_def steel_data_def)
  have c2: "call_component m2 ''cost'' (Some (point2 6000 2800)) = Inr (Some 234000)"
    by (simp add: read_build(1)[OF b2] point2_def steel_data_def)
  have "(192000::real) \<le> 234000"
    by (rule optimum_monotone_in_T[OF b1 b2 le o1 o2 c1 c2])
  with b1 b2 le o1 o2 c1 c2 show ?thesis by blast
qed

text \<open>
  C6. With a band demand of zero every optimal solution produces no bands.
\<close>

theorem zero_band_demand_forces_zero:
  assumes "build_model d = Inr m" and "dB d = 0" and "is_optimal m v"
  shows "v ''xB'' = 0"
proof -
  from assms(3) have "feasible m v"
    by (simp add: optimal_build[OF assms(1)])
  then have "0 \<le> v ''xB''" and "v ''xB'' \<le> dB d"
    by (simp_all add: feasible_build[OF assms(1)])
  with assms(2) show ?thesis by simp
qed

lemma steel_dB0_optimal:
  assumes "build_model (steel_data\<lparr>dB := 0\<rparr>) = Inr m"
  shows "is_optimal m (point2 0 4000)"
proof -
  have f: "feasible m w \<longleftrightarrow>
           0 \<le> w ''xB'' \<and> w ''xB'' \<le> 0 \<and> 0 \<le> w ''xC'' \<and> w ''xC'' \<le> 4000 \<and>
           7 * w ''xB'' + 10 * w ''xC'' \<le> 56000" for w
    by (simp add: feasible_build[OF assms]) (auto simp: steel_data_def)
  have "feasible m (point2 0 4000)"
    by (simp add: f point2_def)
  moreover have "25 * w ''xB'' + 30 * w ''xC'' \<le> 25 * point2 0 4000 ''xB'' + 30 * point2 0 4000 ''xC''"
    if "feasible m w" for w
    using that by (simp add: f point2_def)
  ultimately show ?thesis
    by (simp add: optimal_build[OF assms] steel_data_def)
qed

theorem zero_band_demand_forces_zero_witness:
  "\<exists>m. build_model (steel_data\<lparr>dB := 0\<rparr>) = Inr m \<and> dB (steel_data\<lparr>dB := 0\<rparr>) = 0 \<and>
       is_optimal m (point2 0 4000) \<and> point2 0 4000 ''xB'' = 0"
proof -
  obtain m where b: "build_model (steel_data\<lparr>dB := 0\<rparr>) = Inr m"
    by (auto simp: build_model_def steel_data_def py_div_def)
  have z: "dB (steel_data\<lparr>dB := 0\<rparr>) = 0" by simp
  have o: "is_optimal m (point2 0 4000)" by (rule steel_dB0_optimal[OF b])
  have "point2 0 4000 ''xB'' = 0"
    by (rule zero_band_demand_forces_zero[OF b z o])
  with b z o show ?thesis by blast
qed

section \<open>The steps of a run of the notebook\<close>

lemma run_append:
  "run (xs @ ys) k =
     (case run xs k of
        (t, Inl e) \<Rightarrow> (t, Inl e)
      | (t, Inr k') \<Rightarrow> (case run ys k' of (t', r) \<Rightarrow> (t @ t', r)))"
  by (induction xs arbitrary: k) (auto split: prod.splits sum.splits)

lemma steel_model_explicit:
  assumes "build_model steel_data = Inr m"
  shows "m = \<lparr>components =
      [(''xB'', V \<lparr>domain = NonNegativeReals, bounds = (Some 0, Some 6000)\<rparr>),
       (''xC'', V \<lparr>domain = NonNegativeReals, bounds = (Some 0, Some 4000)\<rparr>),
       (''cost'', Obj \<lparr>expr = Add (Mul (Num 25) (Ref ''xB'')) (Mul (Num 30) (Ref ''xC'')),
                       sense = maximize\<rparr>),
       (''cnstr1'', Con \<lparr>body = Add (Mul (Num (1 / 200)) (Ref ''xB'')) (Mul (Num (1 / 140)) (Ref ''xC'')),
                         rel = Le, rhs = 40\<rparr>)]\<rparr>"
  using build_model_components(3)[OF assms] by (simp add: steel_data_def)

lemma run_data_cell:
  "run data_cell k =
     ([Assign ''pB'' 25, Assign ''pC'' 30, Assign ''rB'' 200, Assign ''rC'' 140,
       Assign ''dB'' 6000, Assign ''dC'' 4000, Assign ''T'' 40],
      Inr (k\<lparr>k_nums := (k_nums k)(''pB'' \<mapsto> 25, ''pC'' \<mapsto> 30, ''rB'' \<mapsto> 200, ''rC'' \<mapsto> 140,
                                   ''dB'' \<mapsto> 6000, ''dC'' \<mapsto> 4000, ''T'' \<mapsto> 40)\<rparr>))"
  by (simp add: data_cell_def assign_def)

lemma run_declaration_cells:
  assumes b: "build_model steel_data = Inr m"
    and n: "k_nums k = f(''pB'' \<mapsto> 25, ''pC'' \<mapsto> 30, ''rB'' \<mapsto> 200, ''rC'' \<mapsto> 140,
                                   ''dB'' \<mapsto> 6000, ''dC'' \<mapsto> 4000, ''T'' \<mapsto> 40)"
    and m: "k_model k = Some new_model"
  shows "run declaration_cells k =
     ([Declare ''xB'', Declare ''xC'', Declare ''cost'', Declare ''cnstr1''],
      Inr (k\<lparr>k_model := Some m\<rparr>))"
  by (simp add: steel_model_explicit[OF b] declaration_cells_def declare_var_def declare_cost_def
        declare_cnstr1_def declared_def and_then_def number_def the_model_def attribute_def
        set_component_def add_component_def new_model_def py_div_def n m)

text \<open>
  The cell "Complete Script", run statement by statement in any kernel, declares the model
  and then does what \<open>script\<close> does, for every reply of the solver.
\<close>

lemma complete_script_cell_is_script:
  "\<exists>r. run (complete_script_cell slv) k =
          ([New_model] @
           [Assign ''pB'' 25, Assign ''pC'' 30, Assign ''rB'' 200, Assign ''rC'' 140,
            Assign ''dB'' 6000, Assign ''dC'' 4000, Assign ''T'' 40] @
           [Declare ''xB'', Declare ''xC'', Declare ''cost'', Declare ''cnstr1''] @
           fst (script steel_data slv), r) \<and>
        (case r of Inl e \<Rightarrow> snd (script steel_data slv) = Some e
                 | Inr k' \<Rightarrow> snd (script steel_data slv) = None)"
proof -
  obtain m where b: "build_model steel_data = Inr m"
    using build_steel_ok by blast
  let ?k1 = "k\<lparr>k_model := Some new_model, k_loaded := None\<rparr>"
  let ?k2 = "?k1\<lparr>k_nums := (k_nums ?k1)(''pB'' \<mapsto> 25, ''pC'' \<mapsto> 30, ''rB'' \<mapsto> 200, ''rC'' \<mapsto> 140,
                                   ''dB'' \<mapsto> 6000, ''dC'' \<mapsto> 4000, ''T'' \<mapsto> 40)\<rparr>"
  let ?k3 = "?k2\<lparr>k_model := Some m\<rparr>"
  have c: "run [create_model] k = ([New_model], Inr ?k1)"
    by (simp add: create_model_def)
  have d: "run data_cell ?k1 =
     ([Assign ''pB'' 25, Assign ''pC'' 30, Assign ''rB'' 200, Assign ''rC'' 140,
       Assign ''dB'' 6000, Assign ''dC'' 4000, Assign ''T'' 40], Inr ?k2)"
    by (rule run_data_cell)
  have e: "run declaration_cells ?k2 =
     ([Declare ''xB'', Declare ''xC'', Declare ''cost'', Declare ''cnstr1''], Inr ?k3)"
    by (rule run_declaration_cells[OF b]) simp_all
  have f: "\<exists>r. run [solve_stmt slv, report_stmt] ?k3 = (fst (script steel_data slv), r) \<and>
        (case r of Inl e \<Rightarrow> snd (script steel_data slv) = Some e
                 | Inr k' \<Rightarrow> snd (script steel_data slv) = None)"
    by (auto simp: solve_stmt_def report_stmt_def the_model_def script_def b
             split: sum.splits prod.splits option.splits)
  then obtain r where f1: "run [solve_stmt slv, report_stmt] ?k3 = (fst (script steel_data slv), r)"
    and f2: "case r of Inl e \<Rightarrow> snd (script steel_data slv) = Some e
                 | Inr k' \<Rightarrow> snd (script steel_data slv) = None"
    by blast
  have "run (complete_script_cell slv) k =
          ([New_model] @
           [Assign ''pB'' 25, Assign ''pC'' 30, Assign ''rB'' 200, Assign ''rC'' 140,
            Assign ''dB'' 6000, Assign ''dC'' 4000, Assign ''T'' 40] @
           [Declare ''xB'', Declare ''xC'', Declare ''cost'', Declare ''cnstr1''] @
           fst (script steel_data slv), r)"
    unfolding complete_script_cell_def
    by (simp only: run_append c d e f1 prod.case sum.case append_assoc)
  with f2 show ?thesis by blast
qed

lemma local_install: "install env_local = ([''conda install -c conda-forge glpk''], False)"
  by (simp add: install_def env_local_def)




section \<open>The shape of the model\<close>

text \<open>
  C8. Whatever the data, the model that is built holds exactly four components, in this
  order: the two variables \<open>xB\<close> and \<open>xC\<close>, each continuous with both bounds given, one
  objective, linear and to be maximized, and one constraint, linear and of the form
  \<open>\<le>\<close>.
\<close>

theorem built_model_shape:
  assumes "build_model d = Inr m"
  shows "map fst (components m) = [''xB'', ''xC'', ''cost'', ''cnstr1''] \<and>
         map fst (variables (components m)) = [''xB'', ''xC''] \<and>
         list_all bounded_continuous (map snd (variables (components m))) \<and>
         (\<exists>ob. objectives (components m) = [ob] \<and> sense ob = maximize \<and> is_linear (expr ob)) \<and>
         (\<exists>c. constraints (components m) = [c] \<and> rel c = Le \<and> is_linear (body c))"
  by (simp add: build_model_components(3)[OF assms] bounded_continuous_def)

theorem built_model_shape_witness:
  "\<exists>m. build_model steel_data = Inr m \<and>
       map fst (components m) = [''xB'', ''xC'', ''cost'', ''cnstr1''] \<and>
       map snd (variables (components m)) =
         [\<lparr>domain = NonNegativeReals, bounds = (Some 0, Some 6000)\<rparr>,
          \<lparr>domain = NonNegativeReals, bounds = (Some 0, Some 4000)\<rparr>] \<and>
       list_all bounded_continuous (map snd (variables (components m))) \<and>
       map sense (objectives (components m)) = [maximize] \<and>
       list_all is_linear (map expr (objectives (components m))) \<and>
       map rel (constraints (components m)) = [Le] \<and>
       list_all is_linear (map body (constraints (components m)))"
proof -
  obtain m where b: "build_model steel_data = Inr m"
    using build_steel_ok by blast
  from built_model_shape[OF b] have
    "map fst (components m) = [''xB'', ''xC'', ''cost'', ''cnstr1'']"
    "list_all bounded_continuous (map snd (variables (components m)))"
    "map sense (objectives (components m)) = [maximize]"
    "list_all is_linear (map expr (objectives (components m)))"
    "map rel (constraints (components m)) = [Le]"
    "list_all is_linear (map body (constraints (components m)))"
    by auto
  moreover have "map snd (variables (components m)) =
         [\<lparr>domain = NonNegativeReals, bounds = (Some 0, Some 6000)\<rparr>,
          \<lparr>domain = NonNegativeReals, bounds = (Some 0, Some 4000)\<rparr>]"
    by (simp add: build_model_components(3)[OF b] steel_data_def)
  ultimately show ?thesis using b by (intro exI[of _ m]) simp
qed

text \<open>
  C9. The constraint the script declares, \<open>(1/rB)*xB + (1/rC)*xC \<le> T\<close>, holds at a point
  exactly when the specification's \<open>xB/rB + xC/rC \<le> T\<close> does, over the reals; the
  witness is the instance \<open>rB = 200\<close>, \<open>rC = 140\<close>, \<open>T = 40\<close>.
\<close>

theorem coded_constraint_is_capacity_spec:
  assumes "build_model d = Inr m"
  shows "\<exists>c. constraints (components m) = [c] \<and>
              (\<forall>v. holds v c \<longleftrightarrow> capacity_spec d (v ''xB'') (v ''xC''))"
  by (simp add: build_model_components(3)[OF assms] holds_def capacity_spec_def)

theorem coded_constraint_is_capacity_spec_witness:
  "\<exists>m c. build_model steel_data = Inr m \<and> constraints (components m) = [c] \<and>
         body c = Add (Mul (Num (1 / 200)) (Ref ''xB'')) (Mul (Num (1 / 140)) (Ref ''xC'')) \<and>
         rhs c = 40 \<and>
         (\<forall>xb xc. holds (point2 xb xc) c \<longleftrightarrow> xb / 200 + xc / 140 \<le> 40)"
proof -
  obtain m where b: "build_model steel_data = Inr m"
    using build_steel_ok by blast
  from coded_constraint_is_capacity_spec[OF b] obtain c
    where c: "constraints (components m) = [c]"
      and h: "\<forall>v. holds v c \<longleftrightarrow> capacity_spec steel_data (v ''xB'') (v ''xC'')"
    by blast
  from c have "body c = Add (Mul (Num (1 / 200)) (Ref ''xB'')) (Mul (Num (1 / 140)) (Ref ''xC''))"
    and "rhs c = 40"
    by (auto simp: build_model_components(3)[OF b] steel_data_def)
  moreover from h have "\<forall>xb xc. holds (point2 xb xc) c \<longleftrightarrow> xb / 200 + xc / 140 \<le> 40"
    by (simp add: capacity_spec_def point2_def steel_data_def)
  ultimately show ?thesis using b c by (intro exI[of _ m] exI[of _ c]) simp
qed

text \<open>
  C10. At every optimal solution of the model with the script's data the capacity
  constraint is tight, the band production equals its demand bound \<open>dB = 6000\<close>, and
  the coil production is \<open>1400\<close>, strictly below its bound \<open>dC = 4000\<close>.
\<close>

theorem steel_optimum_tightness:
  assumes "build_model steel_data = Inr m" and "is_optimal m v"
  shows "v ''xB'' / rB steel_data + v ''xC'' / rC steel_data = T steel_data \<and>
         v ''xB'' = dB steel_data \<and>
         v ''xC'' = 1400 \<and> v ''xC'' < dC steel_data"
proof -
  from assms(2) have "v ''xB'' = 6000" and "v ''xC'' = 1400"
    by (simp_all add: steel_optimal_iff[OF assms(1)])
  then show ?thesis
    by (simp add: steel_data_def)
qed

theorem steel_optimum_tightness_witness:
  "\<exists>m. build_model steel_data = Inr m \<and> is_optimal m (point2 6000 1400) \<and>
       (6000::real) / 200 + 1400 / 140 = 40 \<and>
       point2 6000 1400 ''xB'' = dB steel_data \<and>
       point2 6000 1400 ''xC'' = 1400 \<and> point2 6000 1400 ''xC'' < dC steel_data"
proof -
  obtain m where b: "build_model steel_data = Inr m"
    using build_steel_ok by blast
  have o: "is_optimal m (point2 6000 1400)"
    by (rule steel_point_optimal[OF b])
  from steel_optimum_tightness[OF b o] have
    "point2 6000 1400 ''xB'' = dB steel_data"
    "point2 6000 1400 ''xC'' = 1400" "point2 6000 1400 ''xC'' < dC steel_data"
    by simp_all
  with b o show ?thesis by (intro exI[of _ m]) simp
qed


section \<open>The installation cell branches\<close>

lemma install_branches:
  "install \<lparr>which_pyomo = True, which_pyomo_after_pip = True, which_glpk = True,
            isfile_glpk = False, in_colab = False\<rparr> = ([], False)"
  "install \<lparr>which_pyomo = False, which_pyomo_after_pip = True, which_glpk = False,
            isfile_glpk = False, in_colab = True\<rparr> =
     ([''pip install -q pyomo'', ''apt-get install -y -qq glpk-utils''], False)"
  "install \<lparr>which_pyomo = True, which_pyomo_after_pip = True, which_glpk = False,
            isfile_glpk = False, in_colab = False\<rparr> =
     ([''conda install -c conda-forge glpk''], False)"
  "install \<lparr>which_pyomo = False, which_pyomo_after_pip = False, which_glpk = False,
            isfile_glpk = False, in_colab = False\<rparr> = ([''pip install -q pyomo''], True)"
  by (simp_all add: install_def)

end
